theory Spec2Isabelle
  imports Complex_Main "HOL-Library.Sublist"
begin

section \<open>JavaScript values\<close>

text \<open>
  The node renderer is TypeScript (React). Its values are modelled by their static types:
  an optional field of type \<open>T | undefined\<close> is a \<open>T option\<close>, with \<open>None\<close> for
  \<open>undefined\<close>. The fields \<open>width\<close> and \<open>height\<close> may also hold \<open>null\<close>; the component
  reads them only through \<open>??\<close> and \<open>!!\<close>, which treat \<open>null\<close> and \<open>undefined\<close> alike, so
  \<open>None\<close> stands for both there. Objects and functions that the component only passes on
  (components, event handlers, style objects, node data) are known by their reference.
\<close>

type_synonym ref = nat

text \<open>A JavaScript number: a (finite) value or \<open>NaN\<close>.\<close>

datatype number = NaN | Num real

text \<open>Truthiness (\<open>!!v\<close>), per type: \<open>false\<close>, \<open>0\<close>, \<open>NaN\<close> and \<open>''\<close> are falsy.\<close>

definition truthy_boolean :: "bool \<Rightarrow> bool" where
  "truthy_boolean b = b"

definition truthy_number :: "number \<Rightarrow> bool" where
  "truthy_number v = (case v of NaN \<Rightarrow> False | Num r \<Rightarrow> r \<noteq> 0)"

definition truthy_string :: "string \<Rightarrow> bool" where
  "truthy_string str = (str \<noteq> [])"

text \<open>Truthiness of a value that may be \<open>undefined\<close> (or \<open>null\<close>): those two are falsy.\<close>

definition truthy_opt :: "('a \<Rightarrow> bool) \<Rightarrow> 'a option \<Rightarrow> bool" where
  "truthy_opt truthy v = (case v of None \<Rightarrow> False | Some a \<Rightarrow> truthy a)"

text \<open>\<open>a || b\<close> is \<open>a\<close> when \<open>a\<close> is truthy, else \<open>b\<close>; \<open>a && b\<close> is \<open>b\<close> when \<open>a\<close> is truthy, else \<open>a\<close>.\<close>

definition js_or :: "('a \<Rightarrow> bool) \<Rightarrow> 'a \<Rightarrow> 'a \<Rightarrow> 'a" where
  "js_or truthy a b = (if truthy a then a else b)"

definition js_and :: "('a \<Rightarrow> bool) \<Rightarrow> 'a \<Rightarrow> 'a \<Rightarrow> 'a" where
  "js_and truthy a b = (if truthy a then b else a)"

text \<open>\<open>a ?? b\<close> is \<open>a\<close> unless \<open>a\<close> is \<open>null\<close> or \<open>undefined\<close>; the right operand may itself be
  optional (\<open>nullish\<close>) or a plain value (\<open>nullish_or\<close>).\<close>

definition nullish :: "'a option \<Rightarrow> 'a option \<Rightarrow> 'a option" where
  "nullish a b = (case a of None \<Rightarrow> b | Some v \<Rightarrow> Some v)"

definition nullish_or :: "'a option \<Rightarrow> 'a \<Rightarrow> 'a" where
  "nullish_or a b = (case a of None \<Rightarrow> b | Some v \<Rightarrow> v)"

text \<open>Optional chaining \<open>a?.f\<close>: \<open>undefined\<close> when \<open>a\<close> is, else the field, which is optional
  itself (\<open>chain\<close>) or always there (\<open>chain_field\<close>).\<close>

definition chain :: "'a option \<Rightarrow> ('a \<Rightarrow> 'b option) \<Rightarrow> 'b option" where
  "chain a f = (case a of None \<Rightarrow> None | Some v \<Rightarrow> f v)"

definition chain_field :: "'a option \<Rightarrow> ('a \<Rightarrow> 'b) \<Rightarrow> 'b option" where
  "chain_field a f = (case a of None \<Rightarrow> None | Some v \<Rightarrow> Some (f v))"

text \<open>\<open>typeof v === 'undefined'\<close>.\<close>

definition is_undefined :: "'a option \<Rightarrow> bool" where
  "is_undefined v = (v = None)"

text \<open>An object, an array or a non-empty enum string is always truthy.\<close>

definition truthy_object :: "'a \<Rightarrow> bool" where
  "truthy_object v = True"

text \<open>\<open>a || d\<close> where \<open>a\<close> may be \<open>undefined\<close> and \<open>d\<close> is a plain value.\<close>

definition js_or_default :: "('a \<Rightarrow> bool) \<Rightarrow> 'a option \<Rightarrow> 'a \<Rightarrow> 'a" where
  "js_or_default truthy a d = (case a of None \<Rightarrow> d | Some v \<Rightarrow> if truthy v then v else d)"

section \<open>The data model\<close>

text \<open>Record fields carry a prefix for their record (\<open>n_\<close> node, \<open>c_\<close> computed, \<open>i_\<close> internals,
  \<open>s_\<close> store state, \<open>p_\<close> the presenter's props, \<open>r_\<close> the renderer's props, \<open>e_\<close> the
  rendered element), followed by the source's field name.\<close>

record XYPosition =
  xy_x :: number
  xy_y :: number

text \<open>The extent rectangle, a range \<open>(lo, hi)\<close> per axis, and the origin \<open>[x, y]\<close>.\<close>

record CoordinateExtent =
  ext_x :: "number \<times> number"
  ext_y :: "number \<times> number"

type_synonym NodeOrigin = "number \<times> number"

datatype Position = Left | Top | Right | Bottom

record computed =
  c_width :: "number option"
  c_height :: "number option"
  c_positionAbsolute :: "XYPosition option"

record internals =
  i_z :: "number option"
  i_isParent :: "bool option"

record node =
  n_id :: string
  n_type :: "string option"
  n_className :: "string option"
  n_style :: "ref option"
  n_data :: ref
  n_width :: "number option"
  n_height :: "number option"
  n_sourcePosition :: "Position option"
  n_targetPosition :: "Position option"
  n_hidden :: "bool option"
  n_selected :: "bool option"
  n_draggable :: "bool option"
  n_selectable :: "bool option"
  n_connectable :: "bool option"
  n_focusable :: "bool option"
  n_dragHandle :: "string option"
  n_origin :: "NodeOrigin option"
  n_computed :: "computed option"
  n_internals :: "internals option"
  n_ariaLabel :: "string option"

text \<open>The part of the store's state that the two components select.\<close>

record ReactFlowState =
  s_nodeLookup :: "string \<rightharpoonup> node"
  s_nodesDraggable :: bool
  s_nodesConnectable :: bool
  s_nodesFocusable :: bool
  s_elementsSelectable :: bool
  s_updateNodeDimensions :: ref
  s_onError :: "ref option"

text \<open>The registry \<open>nodeTypes\<close> is a JavaScript object: it has entries of its own, and
  a property read also finds what the object inherits along its prototype chain (for an
  object literal the members of \<open>Object.prototype\<close>, such as \<open>toString\<close> and
  \<open>constructor\<close>). \<open>get_property obj name\<close> is the read \<open>obj[name]\<close>: the own entry when
  there is one, else the inherited member, else \<open>None\<close> for \<open>undefined\<close>.\<close>

record js_object =
  own_properties :: "string \<rightharpoonup> ref"
  inherited_properties :: "string \<rightharpoonup> ref"

definition get_property :: "js_object \<Rightarrow> string \<Rightarrow> ref option" where
  "get_property obj name =
    (case own_properties obj name of
       Some v \<Rightarrow> Some v
     | None \<Rightarrow> inherited_properties obj name)"

text \<open>The props of \<open>NodeComponentWrapper\<close> (lines 132 to 153).\<close>

record wrapper_props =
  p_id :: string
  p_nodeExtent :: "CoordinateExtent option"
  p_nodeTypes :: js_object
  p_nodeOrigin :: "NodeOrigin option"
  p_onNodeClick :: "ref option"
  p_onNodeMouseEnter :: "ref option"
  p_onNodeMouseMove :: "ref option"
  p_onNodeMouseLeave :: "ref option"
  p_onNodeContextMenu :: "ref option"
  p_onNodeDoubleClick :: "ref option"
  p_noDragClassName :: "string option"
  p_noPanClassName :: "string option"
  p_rfId :: "string option"
  p_disableKeyboardA11y :: "bool option"
  p_resizeObserver :: "ref option"
  p_nodesDraggable :: bool
  p_nodesConnectable :: bool
  p_nodesFocusable :: bool
  p_elementsSelectable :: bool
  p_onError :: "ref option"

text \<open>The element that \<open>NodeComponentWrapper\<close> returns (lines 186 to 226): the component and
  the props it is given. \<open>e_component\<close> is \<open>None\<close> when the registry yields no component.\<close>

record element =
  e_component :: "ref option"
  e_key :: string
  e_id :: string
  e_className :: "string option"
  e_style :: "ref option"
  e_width :: "number option"
  e_height :: "number option"
  e_type :: string
  e_data :: ref
  e_sourcePosition :: Position
  e_targetPosition :: Position
  e_hidden :: "bool option"
  e_xPos :: number
  e_yPos :: number
  e_xPosOrigin :: number
  e_yPosOrigin :: number
  e_positionAbsolute :: XYPosition
  e_onClick :: "ref option"
  e_onMouseEnter :: "ref option"
  e_onMouseMove :: "ref option"
  e_onMouseLeave :: "ref option"
  e_onContextMenu :: "ref option"
  e_onDoubleClick :: "ref option"
  e_selected :: bool
  e_isDraggable :: bool
  e_isSelectable :: bool
  e_isConnectable :: bool
  e_isFocusable :: bool
  e_resizeObserver :: "ref option"
  e_dragHandle :: "string option"
  e_zIndex :: number
  e_isParent :: bool
  e_noDragClassName :: "string option"
  e_noPanClassName :: "string option"
  e_initialized :: bool
  e_rfId :: "string option"
  e_disableKeyboardA11y :: "bool option"
  e_ariaLabel :: "string option"

section \<open>Effects\<close>

text \<open>What a render or a callback does beyond returning: the calls it makes, in order, each
  with the function or object it is made on.\<close>

record dom_element =
  el_ref :: ref
  el_attributes :: "(string \<times> string) list"

record dimension_update =
  u_id :: "string option"
  u_nodeElement :: dom_element
  u_forceUpdate :: bool

datatype effect =
    Call_onError ref string string
  | Call_updateNodeDimensions ref "(string option \<times> dimension_update) list"
  | New_ResizeObserver ref
  | Call_disconnect ref

section \<open>What the component imports from the system package\<close>

text \<open>Line 3 imports \<open>clampPosition\<close>, \<open>getPositionWithOrigin\<close> and \<open>errorMessages\<close> from
  \<open>@xyflow/system\<close>, whose code is not part of the sources at hand. The component is
  modelled for any such functions: they are the fields of \<open>system\<close>.\<close>

record origin_args =
  a_x :: number
  a_y :: number
  a_width :: number
  a_height :: number
  a_origin :: "NodeOrigin option"

record system =
  sys_clampPosition :: "XYPosition option \<Rightarrow> CoordinateExtent \<Rightarrow> XYPosition"
  sys_getPositionWithOrigin :: "origin_args \<Rightarrow> XYPosition"
  sys_error003 :: "string \<Rightarrow> string"

section \<open>The node presenter: \<open>NodeComponentWrapper\<close>\<close>

text \<open>One render of \<open>NodeComponentWrapper\<close> (lines 154 to 226) for the props \<open>props\<close> and the
  store state \<open>s\<close>: the calls it makes and the element it returns, \<open>None\<close> for \<open>null\<close>.\<close>

definition NodeComponentWrapper ::
  "system \<Rightarrow> wrapper_props \<Rightarrow> ReactFlowState \<Rightarrow> effect list \<times> element option" where
  "NodeComponentWrapper sys props s =
    (case s_nodeLookup s (p_id props) of
      None \<Rightarrow> ([], None)
    | Some node \<Rightarrow>
       (let nodeType0 = js_or_default truthy_string (n_type node) ''default'';
            unknown = (\<not> truthy_opt truthy_object (get_property (p_nodeTypes props) nodeType0));
            effects =
              (if unknown then
                 (case p_onError props of
                    None \<Rightarrow> []
                  | Some f \<Rightarrow> [Call_onError f ''003'' (sys_error003 sys nodeType0)])
               else []);
            nodeType = (if unknown then ''default'' else nodeType0);
            NodeComponent =
              js_or (truthy_opt truthy_object)
                (get_property (p_nodeTypes props) nodeType)
                (get_property (p_nodeTypes props) ''default'');
            isDraggable =
              truthy_opt truthy_boolean
                (js_or (truthy_opt truthy_boolean) (n_draggable node)
                  (Some (js_and truthy_boolean (p_nodesDraggable props)
                     (is_undefined (n_draggable node)))));
            isSelectable =
              truthy_opt truthy_boolean
                (js_or (truthy_opt truthy_boolean) (n_selectable node)
                  (Some (js_and truthy_boolean (p_elementsSelectable props)
                     (is_undefined (n_selectable node)))));
            isConnectable =
              truthy_opt truthy_boolean
                (js_or (truthy_opt truthy_boolean) (n_connectable node)
                  (Some (js_and truthy_boolean (p_nodesConnectable props)
                     (is_undefined (n_connectable node)))));
            isFocusable =
              truthy_opt truthy_boolean
                (js_or (truthy_opt truthy_boolean) (n_focusable node)
                  (Some (js_and truthy_boolean (p_nodesFocusable props)
                     (is_undefined (n_focusable node)))));
            clampedPosition =
              (case p_nodeExtent props of
                 Some extent \<Rightarrow>
                   Some (sys_clampPosition sys
                     (chain (n_computed node) c_positionAbsolute) extent)
               | None \<Rightarrow> chain (n_computed node) c_positionAbsolute);
            posX = nullish_or (chain_field clampedPosition xy_x) (Num 0);
            posY = nullish_or (chain_field clampedPosition xy_y) (Num 0);
            posOrigin =
              sys_getPositionWithOrigin sys
                \<lparr>a_x = posX, a_y = posY,
                 a_width =
                   nullish_or (nullish (chain (n_computed node) c_width) (n_width node)) (Num 0),
                 a_height =
                   nullish_or (nullish (chain (n_computed node) c_height) (n_height node)) (Num 0),
                 a_origin = js_or (truthy_opt truthy_object) (n_origin node) (p_nodeOrigin props)\<rparr>;
            initialized =
              ((truthy_opt truthy_number (chain (n_computed node) c_width)
                  \<and> truthy_opt truthy_number (chain (n_computed node) c_height))
               \<or> (truthy_opt truthy_number (n_width node)
                  \<and> truthy_opt truthy_number (n_height node)))
        in (effects,
            Some \<lparr>e_component = NodeComponent,
                  e_key = n_id node,
                  e_id = n_id node,
                  e_className = n_className node,
                  e_style = n_style node,
                  e_width = nullish (n_width node) None,
                  e_height = nullish (n_height node) None,
                  e_type = nodeType,
                  e_data = n_data node,
                  e_sourcePosition = js_or_default truthy_object (n_sourcePosition node) Bottom,
                  e_targetPosition = js_or_default truthy_object (n_targetPosition node) Top,
                  e_hidden = n_hidden node,
                  e_xPos = posX,
                  e_yPos = posY,
                  e_xPosOrigin = xy_x posOrigin,
                  e_yPosOrigin = xy_y posOrigin,
                  e_positionAbsolute =
                    js_or_default truthy_object clampedPosition \<lparr>xy_x = Num 0, xy_y = Num 0\<rparr>,
                  e_onClick = p_onNodeClick props,
                  e_onMouseEnter = p_onNodeMouseEnter props,
                  e_onMouseMove = p_onNodeMouseMove props,
                  e_onMouseLeave = p_onNodeMouseLeave props,
                  e_onContextMenu = p_onNodeContextMenu props,
                  e_onDoubleClick = p_onNodeDoubleClick props,
                  e_selected = truthy_opt truthy_boolean (n_selected node),
                  e_isDraggable = isDraggable,
                  e_isSelectable = isSelectable,
                  e_isConnectable = isConnectable,
                  e_isFocusable = isFocusable,
                  e_resizeObserver = p_resizeObserver props,
                  e_dragHandle = n_dragHandle node,
                  e_zIndex = nullish_or (chain (n_internals node) i_z) (Num 0),
                  e_isParent = truthy_opt truthy_boolean (chain (n_internals node) i_isParent),
                  e_noDragClassName = p_noDragClassName props,
                  e_noPanClassName = p_noPanClassName props,
                  e_initialized = initialized,
                  e_rfId = p_rfId props,
                  e_disableKeyboardA11y = p_disableKeyboardA11y props,
                  e_ariaLabel = n_ariaLabel node\<rparr>)))"

section \<open>The collection coordinator: \<open>NodeRenderer\<close>\<close>

record NodeRendererProps =
  r_onNodeClick :: "ref option"
  r_onNodeDoubleClick :: "ref option"
  r_onNodeMouseEnter :: "ref option"
  r_onNodeMouseMove :: "ref option"
  r_onNodeMouseLeave :: "ref option"
  r_onNodeContextMenu :: "ref option"
  r_onlyRenderVisibleElements :: "bool option"
  r_noPanClassName :: "string option"
  r_noDragClassName :: "string option"
  r_rfId :: "string option"
  r_disableKeyboardA11y :: "bool option"
  r_nodeOrigin :: "NodeOrigin option"
  r_nodeExtent :: "CoordinateExtent option"
  r_nodeTypes :: js_object

text \<open>\<open>selector\<close> (lines 30 to 37).\<close>

record selection =
  sel_nodesDraggable :: bool
  sel_nodesConnectable :: bool
  sel_nodesFocusable :: bool
  sel_elementsSelectable :: bool
  sel_updateNodeDimensions :: ref
  sel_onError :: "ref option"

definition selector :: "ReactFlowState \<Rightarrow> selection" where
  "selector s =
    \<lparr>sel_nodesDraggable = s_nodesDraggable s,
     sel_nodesConnectable = s_nodesConnectable s,
     sel_nodesFocusable = s_nodesFocusable s,
     sel_elementsSelectable = s_elementsSelectable s,
     sel_updateNodeDimensions = s_updateNodeDimensions s,
     sel_onError = s_onError s\<rparr>"

subsection \<open>The observer's callback\<close>

record ResizeObserverEntry =
  entry_target :: dom_element

text \<open>\<open>element.getAttribute(name)\<close>: the attribute's value, \<open>None\<close> (\<open>null\<close>) when the element
  has no such attribute.\<close>

definition getAttribute :: "dom_element \<Rightarrow> string \<Rightarrow> string option" where
  "getAttribute el name = map_of (el_attributes el) name"

text \<open>A JavaScript \<open>Map\<close> is the list of its entries in insertion order. \<open>Map_set\<close> replaces the
  value of a key that is there, in place, and appends a new key. The keys of \<open>updates\<close> are
  what \<open>getAttribute\<close> returned, which the source casts to \<open>string\<close>: a string or \<open>null\<close>.\<close>

fun Map_set :: "'k \<Rightarrow> 'v \<Rightarrow> ('k \<times> 'v) list \<Rightarrow> ('k \<times> 'v) list" where
  "Map_set k v [] = [(k, v)]"
| "Map_set k v ((k', v') # m) =
     (if k' = k then (k, v) # m else (k', v') # Map_set k v m)"

definition Map_get :: "('k \<times> 'v) list \<Rightarrow> 'k \<Rightarrow> 'v option" where
  "Map_get m k = map_of m k"

text \<open>The body of the \<open>forEach\<close> (lines 54 to 59), and the callback given to
  \<open>new ResizeObserver\<close> (lines 50 to 63), which closes over \<open>updateNodeDimensions\<close>.\<close>

definition stage ::
  "(string option \<times> dimension_update) list \<Rightarrow> ResizeObserverEntry
    \<Rightarrow> (string option \<times> dimension_update) list" where
  "stage updates entry =
    (let data_id = getAttribute (entry_target entry) ''data-id''
     in Map_set data_id
          \<lparr>u_id = data_id, u_nodeElement = entry_target entry, u_forceUpdate = True\<rparr>
          updates)"

definition resizeObserver_callback :: "ref \<Rightarrow> ResizeObserverEntry list \<Rightarrow> effect list" where
  "resizeObserver_callback updateNodeDimensions entries =
    (let updates = foldl stage [] entries
     in [Call_updateNodeDimensions updateNodeDimensions updates])"

subsection \<open>Hooks and one render\<close>

text \<open>The state that React keeps for one mounted \<open>NodeRenderer\<close>: the cell of \<open>useRef\<close>
  (line 43, \<open>undefined\<close> at first), the cell of \<open>useMemo\<close> (line 45: \<open>None\<close> before the first
  render, afterwards the stored value, which is \<open>null\<close> or the observer), and the
  \<open>updateNodeDimensions\<close> that the constructed observer's callback closes over.\<close>

record hooks =
  h_resizeObserverRef :: "ref option"
  h_resizeObserver :: "ref option option"
  h_callback :: "ref option"

definition initial_hooks :: hooks where
  "initial_hooks = \<lparr>h_resizeObserverRef = None, h_resizeObserver = None, h_callback = None\<rparr>"

text \<open>What a render finds in the runtime: whether \<open>ResizeObserver\<close> is defined (line 46), and
  the address that \<open>new\<close> gives to the next object.\<close>

record runtime =
  rt_ResizeObserver_defined :: bool
  rt_fresh :: ref

text \<open>The function given to \<open>useMemo\<close> (lines 45 to 68).\<close>

definition resizeObserver_factory ::
  "runtime \<Rightarrow> ref \<Rightarrow> hooks \<Rightarrow> hooks \<times> effect list \<times> ref option" where
  "resizeObserver_factory rt updateNodeDimensions h =
    (if \<not> rt_ResizeObserver_defined rt then (h, [], None)
     else
       (let observer = rt_fresh rt
        in (h\<lparr>h_resizeObserverRef := Some observer,
               h_callback := Some updateNodeDimensions\<rparr>,
            [New_ResizeObserver observer],
            Some observer)))"

text \<open>\<open>useMemo(factory, [])\<close>: the first render runs the factory and stores its value, every
  later render returns the stored value.\<close>

definition useMemo_resizeObserver ::
  "runtime \<Rightarrow> ref \<Rightarrow> hooks \<Rightarrow> hooks \<times> effect list \<times> ref option" where
  "useMemo_resizeObserver rt updateNodeDimensions h =
    (case h_resizeObserver h of
       Some stored \<Rightarrow> (h, [], stored)
     | None \<Rightarrow>
        (case resizeObserver_factory rt updateNodeDimensions h of
           (h', effects, made) \<Rightarrow> (h'\<lparr>h_resizeObserver := Some made\<rparr>, effects, made)))"

text \<open>One render of \<open>NodeRenderer\<close> (lines 39 to 130). \<open>nodeIds\<close> is what the hook
  \<open>useVisibleNodesIds\<close> returns in this render (its code is not part of the sources at
  hand). The result is the new hook state, the calls made, and the props of the
  \<open>NodeComponentWrapper\<close> children in order.\<close>

definition NodeRenderer ::
  "runtime \<Rightarrow> NodeRendererProps \<Rightarrow> ReactFlowState \<Rightarrow> string list \<Rightarrow> hooks
    \<Rightarrow> hooks \<times> effect list \<times> wrapper_props list" where
  "NodeRenderer rt props s nodeIds h =
    (let selected = selector s
     in case useMemo_resizeObserver rt (sel_updateNodeDimensions selected) h of
       (h', effects, resizeObserver) \<Rightarrow>
         (h', effects,
          map (\<lambda>nodeId.
              \<lparr>p_id = nodeId,
               p_nodeExtent = r_nodeExtent props,
               p_nodeTypes = r_nodeTypes props,
               p_nodeOrigin = r_nodeOrigin props,
               p_onNodeClick = r_onNodeClick props,
               p_onNodeMouseEnter = r_onNodeMouseEnter props,
               p_onNodeMouseMove = r_onNodeMouseMove props,
               p_onNodeMouseLeave = r_onNodeMouseLeave props,
               p_onNodeContextMenu = r_onNodeContextMenu props,
               p_onNodeDoubleClick = r_onNodeDoubleClick props,
               p_noDragClassName = r_noDragClassName props,
               p_noPanClassName = r_noPanClassName props,
               p_rfId = r_rfId props,
               p_disableKeyboardA11y = r_disableKeyboardA11y props,
               p_resizeObserver = resizeObserver,
               p_nodesDraggable = sel_nodesDraggable selected,
               p_nodesConnectable = sel_nodesConnectable selected,
               p_nodesFocusable = sel_nodesFocusable selected,
               p_elementsSelectable = sel_elementsSelectable selected,
               p_onError = sel_onError selected\<rparr>)
            nodeIds))"

text \<open>The cleanup of the effect (lines 70 to 74), which \<open>useEffect(..., [])\<close> runs when the
  component unmounts: \<open>resizeObserverRef?.current?.disconnect()\<close>.\<close>

definition cleanup :: "hooks \<Rightarrow> effect list" where
  "cleanup h =
    (case h_resizeObserverRef h of
       None \<Rightarrow> []
     | Some observer \<Rightarrow> [Call_disconnect observer])"

subsection \<open>The lifetime of one mounted coordinator\<close>

text \<open>Between mount and unmount the component is rendered again any number of times, and
  the platform calls the observer's callback, if an observer was constructed, with
  batches of entries.\<close>

record render_input =
  in_runtime :: runtime
  in_props :: NodeRendererProps
  in_state :: ReactFlowState
  in_nodeIds :: "string list"

datatype event = Render render_input | Resize "ResizeObserverEntry list"

definition render :: "render_input \<Rightarrow> hooks \<Rightarrow> hooks \<times> effect list \<times> wrapper_props list" where
  "render i h = NodeRenderer (in_runtime i) (in_props i) (in_state i) (in_nodeIds i) h"

text \<open>\<open>run\<close> handles the events in order; it returns the hook state, the calls made and the
  children of each render.\<close>

fun run :: "hooks \<Rightarrow> event list \<Rightarrow> hooks \<times> effect list \<times> wrapper_props list list" where
  "run h [] = (h, [], [])"
| "run h (Render i # evs) =
     (case render i h of
        (h', effects, children) \<Rightarrow>
          (case run h' evs of
             (h'', effects', rendered) \<Rightarrow> (h'', effects @ effects', children # rendered)))"
| "run h (Resize entries # evs) =
     (case run h evs of
        (h'', effects', rendered) \<Rightarrow>
          (h'',
           (case h_callback h of
              None \<Rightarrow> []
            | Some updateNodeDimensions \<Rightarrow>
                resizeObserver_callback updateNodeDimensions entries) @ effects',
           rendered))"

text \<open>A whole lifetime: the mounting render, the events, and the cleanup at unmount.\<close>

definition lifetime ::
  "render_input \<Rightarrow> event list \<Rightarrow> effect list \<times> wrapper_props list list" where
  "lifetime first evs =
    (case run initial_hooks (Render first # evs) of
       (h, effects, rendered) \<Rightarrow> (effects @ cleanup h, rendered))"

section \<open>The imported helpers, as the specification describes them\<close>

text \<open>Modelled from the spec: \<open>clampPosition\<close> is imported from \<open>@xyflow/system\<close> and its code
  is missing. The specification lists it as the geometry helper
  \<open>clamp(position, extent) \<rightarrow> position\<close>, which clamps the position into the extent
  rectangle, and says that a missing absolute position defaults to \<open>(0,0)\<close>. The call on
  line 172 hands it the position as it is, missing or not, and the result is a position.
  A coordinate or bound that is \<open>NaN\<close> gives \<open>NaN\<close>.\<close>

definition clamp :: "number \<Rightarrow> number \<times> number \<Rightarrow> number" where
  "clamp v bounds =
    (case (v, bounds) of
       (Num a, Num lo, Num hi) \<Rightarrow> Num (min (max a lo) hi)
     | _ \<Rightarrow> NaN)"

definition clampPosition :: "XYPosition option \<Rightarrow> CoordinateExtent \<Rightarrow> XYPosition" where
  "clampPosition position extent =
    (let p = nullish_or position \<lparr>xy_x = Num 0, xy_y = Num 0\<rparr>
     in \<lparr>xy_x = clamp (xy_x p) (ext_x extent), xy_y = clamp (xy_y p) (ext_y extent)\<rparr>)"

text \<open>A coordinate lies in a range, and a position inside an extent; a comparison with
  \<open>NaN\<close> is false.\<close>

definition in_range :: "number \<Rightarrow> number \<times> number \<Rightarrow> bool" where
  "in_range v bounds =
    (case (v, bounds) of
       (Num a, Num lo, Num hi) \<Rightarrow> lo \<le> a \<and> a \<le> hi
     | _ \<Rightarrow> False)"

definition inside_extent :: "XYPosition \<Rightarrow> CoordinateExtent \<Rightarrow> bool" where
  "inside_extent p extent = (in_range (xy_x p) (ext_x extent) \<and> in_range (xy_y p) (ext_y extent))"

text \<open>Modelled from the spec: \<open>errorMessages\<close> is imported from \<open>@xyflow/system\<close> and its
  table is missing. The specification says that the unknown-node-type error carries the
  offending type name and that its message references that name; it does not give the
  wording, so the text before and after the name is left open.\<close>

definition error003 :: "string \<Rightarrow> string \<Rightarrow> string \<Rightarrow> string" where
  "error003 pre post nodeType = pre @ nodeType @ post"

section \<open>The capability formula of the specification\<close>

text \<open>Step 4 of the presenter in the specification:
  \<open>effective = node.value === undefined ? collectionDefault : !!node.value\<close>.\<close>

definition effective_spec :: "bool option \<Rightarrow> bool \<Rightarrow> bool" where
  "effective_spec node_value collectionDefault =
    (if node_value = None then collectionDefault else truthy_opt truthy_boolean node_value)"

section \<open>Example inputs\<close>

text \<open>The scenarios of the specification: the node \<open>n1\<close> of type \<open>custom\<close>, authored size
  100 by 50, absolute position (10, 20); a registry with a default component only; a
  store that holds \<open>n1\<close> and no \<open>n2\<close>.\<close>

definition example_node :: node where
  "example_node =
    \<lparr>n_id = ''n1'', n_type = Some ''custom'', n_className = None, n_style = None,
     n_data = 40, n_width = Some (Num 100), n_height = Some (Num 50),
     n_sourcePosition = None, n_targetPosition = None, n_hidden = None,
     n_selected = None, n_draggable = None, n_selectable = Some False,
     n_connectable = Some True, n_focusable = None, n_dragHandle = None,
     n_origin = None,
     n_computed = Some \<lparr>c_width = None, c_height = None,
       c_positionAbsolute = Some \<lparr>xy_x = Num 10, xy_y = Num 20\<rparr>\<rparr>,
     n_internals = None, n_ariaLabel = None\<rparr>"

definition example_state :: ReactFlowState where
  "example_state =
    \<lparr>s_nodeLookup = [''n1'' \<mapsto> example_node],
     s_nodesDraggable = True, s_nodesConnectable = False, s_nodesFocusable = False,
     s_elementsSelectable = True, s_updateNodeDimensions = 30, s_onError = Some 31\<rparr>"

text \<open>The members that an object literal inherits from \<open>Object.prototype\<close>.\<close>

definition Object_prototype :: "string \<rightharpoonup> ref" where
  "Object_prototype =
    map_of
      [(''constructor'', 100), (''toString'', 101), (''toLocaleString'', 102),
       (''valueOf'', 103), (''hasOwnProperty'', 104), (''isPrototypeOf'', 105),
       (''propertyIsEnumerable'', 106), (''__proto__'', 107),
       (''__defineGetter__'', 108), (''__defineSetter__'', 109),
       (''__lookupGetter__'', 110), (''__lookupSetter__'', 111)]"

definition example_nodeTypes :: js_object where
  "example_nodeTypes =
    \<lparr>own_properties = [''default'' \<mapsto> 20], inherited_properties = Object_prototype\<rparr>"

definition example_props :: "string \<Rightarrow> wrapper_props" where
  "example_props nodeId =
    \<lparr>p_id = nodeId, p_nodeExtent = None, p_nodeTypes = example_nodeTypes,
     p_nodeOrigin = Some (Num 0, Num 0),
     p_onNodeClick = None, p_onNodeMouseEnter = None, p_onNodeMouseMove = None,
     p_onNodeMouseLeave = None, p_onNodeContextMenu = None, p_onNodeDoubleClick = None,
     p_noDragClassName = None, p_noPanClassName = None, p_rfId = None,
     p_disableKeyboardA11y = None, p_resizeObserver = None,
     p_nodesDraggable = True, p_nodesConnectable = False, p_nodesFocusable = False,
     p_elementsSelectable = True, p_onError = Some 31\<rparr>"

text \<open>A system package for the examples: the helpers above, and an origin helper that
  moves the position back by the size times the origin (on the examples' values, which
  this arithmetic gets exactly).\<close>

definition example_getPositionWithOrigin :: "origin_args \<Rightarrow> XYPosition" where
  "example_getPositionWithOrigin a =
    (case (a_x a, a_y a, a_width a, a_height a, nullish_or (a_origin a) (Num 0, Num 0)) of
       (Num x, Num y, Num w, Num h, Num ox, Num oy) \<Rightarrow>
         \<lparr>xy_x = Num (x - w * ox), xy_y = Num (y - h * oy)\<rparr>
     | _ \<Rightarrow> \<lparr>xy_x = a_x a, xy_y = a_y a\<rparr>)"

definition example_system :: system where
  "example_system =
    \<lparr>sys_clampPosition = clampPosition,
     sys_getPositionWithOrigin = example_getPositionWithOrigin,
     sys_error003 = error003 ''Node type '' '' not found''\<rparr>"

text \<open>Variants of the example: the node with an empty type name, the node before any
  layout (no computed part), the node with its own origin and a measured width, a
  registry that knows the type \<open>custom\<close>, and a store holding a given node as \<open>n1\<close>.\<close>

definition empty_type_node :: node where
  "empty_type_node = example_node\<lparr>n_type := Some []\<rparr>"

definition unplaced_node :: node where
  "unplaced_node = example_node\<lparr>n_computed := None\<rparr>"

definition measured_node :: node where
  "measured_node =
    example_node\<lparr>n_origin := Some (Num (1/2), Num (1/2)),
      n_computed := Some \<lparr>c_width = Some (Num 80), c_height = None,
        c_positionAbsolute = Some \<lparr>xy_x = Num 150, xy_y = Num 50\<rparr>\<rparr>\<rparr>"

text \<open>The node with an authored width but no height, and a measured width of zero.\<close>

definition half_sized_node :: node where
  "half_sized_node =
    example_node\<lparr>n_height := None,
      n_computed := Some \<lparr>c_width = Some (Num 0), c_height = Some (Num 50),
        c_positionAbsolute = None\<rparr>\<rparr>"

definition custom_nodeTypes :: js_object where
  "custom_nodeTypes =
    \<lparr>own_properties = [''default'' \<mapsto> 20, ''custom'' \<mapsto> 21],
     inherited_properties = Object_prototype\<rparr>"

text \<open>The node whose type is the name of an inherited member, and the props without an
  error callback.\<close>

definition inherited_name_node :: node where
  "inherited_name_node = example_node\<lparr>n_type := Some ''toString''\<rparr>"

definition silent_props :: wrapper_props where
  "silent_props = (example_props ''n1'')\<lparr>p_onError := None\<rparr>"

definition state_with :: "node \<Rightarrow> ReactFlowState" where
  "state_with n = example_state\<lparr>s_nodeLookup := [''n1'' \<mapsto> n]\<rparr>"

text \<open>The extent of the clamping scenario, and an extent that leaves the point (0, 0)
  outside.\<close>

definition example_extent :: CoordinateExtent where
  "example_extent = \<lparr>ext_x = (Num 0, Num 100), ext_y = (Num 0, Num 100)\<rparr>"

definition offset_extent :: CoordinateExtent where
  "offset_extent = \<lparr>ext_x = (Num 10, Num 100), ext_y = (Num 10, Num 100)\<rparr>"

section \<open>Reading the calls of a lifetime\<close>

text \<open>The observers constructed and the observers disconnected among the calls made, in
  order.\<close>

fun constructions :: "effect list \<Rightarrow> ref list" where
  "constructions [] = []"
| "constructions (New_ResizeObserver observer # effects) = observer # constructions effects"
| "constructions (_ # effects) = constructions effects"

fun disconnections :: "effect list \<Rightarrow> ref list" where
  "disconnections [] = []"
| "disconnections (Call_disconnect observer # effects) = observer # disconnections effects"
| "disconnections (_ # effects) = disconnections effects"

text \<open>The render inputs among the events, in order, and what a presenter is handed: the
  node id it is rendered for and the observer it is given.\<close>

fun render_inputs :: "event list \<Rightarrow> render_input list" where
  "render_inputs [] = []"
| "render_inputs (Render i # evs) = i # render_inputs evs"
| "render_inputs (Resize entries # evs) = render_inputs evs"

definition handed :: "wrapper_props \<Rightarrow> string \<times> ref option" where
  "handed p = (p_id p, p_resizeObserver p)"

text \<open>The node id that the observer's callback reads from an entry, and the update it
  stages for it under that key.\<close>

definition entry_id :: "ResizeObserverEntry \<Rightarrow> string option" where
  "entry_id entry = getAttribute (entry_target entry) ''data-id''"

definition staged :: "ResizeObserverEntry \<Rightarrow> dimension_update" where
  "staged entry =
    \<lparr>u_id = entry_id entry, u_nodeElement = entry_target entry, u_forceUpdate = True\<rparr>"

section \<open>Example inputs for the coordinator\<close>

text \<open>Elements with and without the attribute \<open>data-id\<close>, and the entry of an element.\<close>

definition node_element :: "ref \<Rightarrow> string \<Rightarrow> dom_element" where
  "node_element address nodeId =
    \<lparr>el_ref = address, el_attributes = [(''class'', ''react-flow__node''), (''data-id'', nodeId)]\<rparr>"

definition bare_element :: "ref \<Rightarrow> dom_element" where
  "bare_element address = \<lparr>el_ref = address, el_attributes = [(''class'', ''react-flow__node'')]\<rparr>"

definition entry_of :: "dom_element \<Rightarrow> ResizeObserverEntry" where
  "entry_of el = \<lparr>entry_target = el\<rparr>"

definition example_renderer_props :: NodeRendererProps where
  "example_renderer_props =
    \<lparr>r_onNodeClick = None, r_onNodeDoubleClick = None, r_onNodeMouseEnter = None,
     r_onNodeMouseMove = None, r_onNodeMouseLeave = None, r_onNodeContextMenu = None,
     r_onlyRenderVisibleElements = None, r_noPanClassName = None, r_noDragClassName = None,
     r_rfId = None, r_disableKeyboardA11y = None, r_nodeOrigin = Some (Num 0, Num 0),
     r_nodeExtent = None, r_nodeTypes = example_nodeTypes\<rparr>"

text \<open>A render of the example store with the node ids \<open>n1\<close> and \<open>n2\<close>, in a runtime with or
  without \<open>ResizeObserver\<close>, where \<open>new\<close> would give the address \<open>fresh\<close>.\<close>

definition example_input :: "bool \<Rightarrow> ref \<Rightarrow> render_input" where
  "example_input capable fresh =
    \<lparr>in_runtime = \<lparr>rt_ResizeObserver_defined = capable, rt_fresh = fresh\<rparr>,
     in_props = example_renderer_props,
     in_state = example_state,
     in_nodeIds = [''n1'', ''n2'']\<rparr>"

section \<open>Facts about the examples\<close>

lemma example_lookup:
  "s_nodeLookup example_state (p_id (example_props ''n1'')) = Some example_node"
  by (simp add: example_state_def example_props_def)

lemma state_with_lookup:
  "s_nodeLookup (state_with n) (p_id (example_props ''n1'')) = Some n"
  by (simp add: state_with_def example_props_def)

section \<open>The presenter: a node that is not in the store\<close>

text \<open>C4. When the lookup \<open>s.nodeLookup.get(props.id)\<close> finds no node, the presenter returns
  \<open>null\<close> and makes no call at all: no error callback, no store write. The render is a
  value of the model for every input, so nothing is thrown.\<close>

theorem missing_node_renders_nothing:
  assumes "s_nodeLookup s (p_id props) = None"
  shows "NodeComponentWrapper sys props s = ([], None)"
  using assms by (simp add: NodeComponentWrapper_def)

theorem missing_node_renders_nothing_witness:
  "NodeComponentWrapper example_system (example_props ''n2'') example_state = ([], None)"
proof -
  have absent: "s_nodeLookup example_state (p_id (example_props ''n2'')) = None"
    by (simp add: example_state_def example_props_def)
  show ?thesis by (rule missing_node_renders_nothing [OF absent])
qed

section \<open>The presenter: capability flags\<close>

lemma capability_expression:
  "truthy_opt truthy_boolean
     (js_or (truthy_opt truthy_boolean) v
        (Some (js_and truthy_boolean d (is_undefined v))))
   = effective_spec v d"
  by (cases v) (auto simp: truthy_opt_def truthy_boolean_def js_or_def js_and_def
      is_undefined_def effective_spec_def)

text \<open>C2. For a node that is in the store, each of the four flags given to the visual
  component is the specification's formula applied to the node's own value and the
  collection-wide flag: the collection-wide flag when the node's value is \<open>undefined\<close>,
  the node's own boolean otherwise.\<close>

theorem capability_flags_follow_spec:
  assumes "s_nodeLookup s (p_id props) = Some node"
  shows "\<exists>e. snd (NodeComponentWrapper sys props s) = Some e
    \<and> e_isDraggable e = effective_spec (n_draggable node) (p_nodesDraggable props)
    \<and> e_isSelectable e = effective_spec (n_selectable node) (p_elementsSelectable props)
    \<and> e_isConnectable e = effective_spec (n_connectable node) (p_nodesConnectable props)
    \<and> e_isFocusable e = effective_spec (n_focusable node) (p_nodesFocusable props)"
  using assms by (simp add: NodeComponentWrapper_def Let_def capability_expression)

theorem capability_flags_follow_spec_witness:
  "\<exists>e. snd (NodeComponentWrapper example_system (example_props ''n1'') example_state) = Some e
    \<and> e_isDraggable e = True \<and> e_isSelectable e = False
    \<and> e_isConnectable e = True \<and> e_isFocusable e = False"
proof -
  have flags:
    "effective_spec (n_draggable example_node) (p_nodesDraggable (example_props ''n1'')) = True"
    "effective_spec (n_selectable example_node) (p_elementsSelectable (example_props ''n1'')) = False"
    "effective_spec (n_connectable example_node) (p_nodesConnectable (example_props ''n1'')) = True"
    "effective_spec (n_focusable example_node) (p_nodesFocusable (example_props ''n1'')) = False"
    by (simp_all add: effective_spec_def example_node_def example_props_def truthy_opt_def
        truthy_boolean_def)
  from capability_flags_follow_spec [OF example_lookup, of example_system]
  show ?thesis unfolding flags .
qed

section \<open>The presenter: the type registry\<close>

lemma type_resolution:
  "js_or_default truthy_string t ''default''
    = (case t of None \<Rightarrow> ''default'' | Some name \<Rightarrow> if name = [] then ''default'' else name)"
  by (simp add: js_or_default_def truthy_string_def split: option.splits)

lemma registry_read: "truthy_opt truthy_object r = (r \<noteq> None)"
  by (cases r) (simp_all add: truthy_opt_def truthy_object_def)

lemma registry_fallback:
  "js_or (truthy_opt truthy_object) a b = (case a of None \<Rightarrow> b | Some c \<Rightarrow> Some c)"
  by (cases a) (simp_all add: js_or_def truthy_opt_def truthy_object_def)

lemma read_nothing:
  "get_property obj name = None
    \<longleftrightarrow> own_properties obj name = None \<and> inherited_properties obj name = None"
  by (simp add: get_property_def split: option.splits)

lemma read_own: "own_properties obj name = Some c \<Longrightarrow> get_property obj name = Some c"
  by (simp add: get_property_def)

lemma presenter_renders:
  assumes "s_nodeLookup s (p_id props) = Some node"
  shows "\<exists>e. snd (NodeComponentWrapper sys props s) = Some e"
  using assms by (simp add: NodeComponentWrapper_def Let_def)

lemma presenter_effects:
  assumes "s_nodeLookup s (p_id props) = Some node"
    and "js_or_default truthy_string (n_type node) ''default'' = resolved"
  shows "fst (NodeComponentWrapper sys props s) =
    (if get_property (p_nodeTypes props) resolved = None then
       (case p_onError props of None \<Rightarrow> []
        | Some f \<Rightarrow> [Call_onError f ''003'' (sys_error003 sys resolved)])
     else [])"
  using assms
  by (simp add: NodeComponentWrapper_def Let_def registry_read split: option.splits)

lemma presenter_type:
  assumes "s_nodeLookup s (p_id props) = Some node"
    and "js_or_default truthy_string (n_type node) ''default'' = resolved"
  shows "map_option e_type (snd (NodeComponentWrapper sys props s)) =
    Some (if get_property (p_nodeTypes props) resolved = None then ''default'' else resolved)"
  using assms
  by (simp add: NodeComponentWrapper_def Let_def registry_read split: option.splits)

lemma presenter_component:
  assumes "s_nodeLookup s (p_id props) = Some node"
    and "js_or_default truthy_string (n_type node) ''default'' = resolved"
  shows "map_option e_component (snd (NodeComponentWrapper sys props s)) =
    Some (case get_property (p_nodeTypes props) resolved of
            None \<Rightarrow> get_property (p_nodeTypes props) ''default'' | Some c \<Rightarrow> Some c)"
  using assms
  by (simp add: NodeComponentWrapper_def Let_def registry_read registry_fallback
      split: option.splits)

text \<open>C3, as amended. The type name is resolved by \<open>node.type || 'default'\<close>: the node's
  type when it is present and not the empty string, else \<open>default\<close>. When the read
  \<open>props.nodeTypes[name]\<close> of the resolved name yields nothing, that is, the registry has
  no entry of its own for it and inherits no member under it, the presenter calls the
  error callback, if one is configured, exactly once, with the code \<open>003\<close> and the message
  of \<open>error003\<close> for that name, which contains the name, and makes no call if none is
  configured; it renders what the registry yields for \<open>default\<close> under the type
  \<open>default\<close>, which is the registry's own \<open>default\<close> entry when it has one. When the
  registry has an entry of its own for the resolved name, no call is made and that entry
  is rendered. A resolved name that the registry only inherits is not covered.\<close>

theorem unknown_type_reported_default_used:
  assumes "s_nodeLookup s (p_id props) = Some node"
    and "sys_error003 sys = error003 pre post"
    and "resolved =
      (case n_type node of None \<Rightarrow> ''default''
       | Some name \<Rightarrow> if name = [] then ''default'' else name)"
  shows "\<exists>e. snd (NodeComponentWrapper sys props s) = Some e
    \<and> (own_properties (p_nodeTypes props) resolved = None
        \<and> inherited_properties (p_nodeTypes props) resolved = None \<longrightarrow>
         (\<forall>f. p_onError props = Some f \<longrightarrow>
            (\<exists>message. fst (NodeComponentWrapper sys props s) = [Call_onError f ''003'' message]
               \<and> message = error003 pre post resolved \<and> sublist resolved message))
         \<and> (p_onError props = None \<longrightarrow> fst (NodeComponentWrapper sys props s) = [])
         \<and> e_component e = get_property (p_nodeTypes props) ''default''
         \<and> (\<forall>d. own_properties (p_nodeTypes props) ''default'' = Some d \<longrightarrow>
               e_component e = Some d)
         \<and> e_type e = ''default'')
    \<and> (\<forall>c. own_properties (p_nodeTypes props) resolved = Some c \<longrightarrow>
         fst (NodeComponentWrapper sys props s) = [] \<and> e_component e = Some c
         \<and> e_type e = resolved)"
proof -
  have resolved: "js_or_default truthy_string (n_type node) ''default'' = resolved"
    using assms(3) by (simp add: type_resolution)
  obtain e where e: "snd (NodeComponentWrapper sys props s) = Some e"
    using presenter_renders [OF assms(1)] by blast
  have contained: "sublist resolved (error003 pre post resolved)"
    unfolding error003_def by (rule sublist_appendI)
  have effects: "fst (NodeComponentWrapper sys props s) =
    (if get_property (p_nodeTypes props) resolved = None then
       (case p_onError props of None \<Rightarrow> []
        | Some f \<Rightarrow> [Call_onError f ''003'' (error003 pre post resolved)])
     else [])"
    using presenter_effects [OF assms(1) resolved, of sys]
    by (simp add: assms(2) split: option.splits)
  have type: "e_type e =
    (if get_property (p_nodeTypes props) resolved = None then ''default'' else resolved)"
    using presenter_type [OF assms(1) resolved, of sys] by (simp add: e)
  have component: "e_component e =
    (case get_property (p_nodeTypes props) resolved of
       None \<Rightarrow> get_property (p_nodeTypes props) ''default'' | Some c \<Rightarrow> Some c)"
    using presenter_component [OF assms(1) resolved, of sys] by (simp add: e)
  have unknown: "get_property (p_nodeTypes props) resolved = None"
    if "own_properties (p_nodeTypes props) resolved = None"
      and "inherited_properties (p_nodeTypes props) resolved = None"
    using that by (simp add: read_nothing)
  show ?thesis
    using e contained unknown
    by (auto simp add: effects type component read_own)
qed

lemma example_message: "sublist ''custom'' ''Node type custom not found''"
proof -
  have "sublist ''custom'' (''Node type '' @ ''custom'' @ '' not found'')"
    by (rule sublist_appendI)
  then show ?thesis by simp
qed

lemma example_registry:
  "own_properties (p_nodeTypes (example_props ''n1'')) ''custom'' = None"
  "inherited_properties (p_nodeTypes (example_props ''n1'')) ''custom'' = None"
  "own_properties (p_nodeTypes (example_props ''n1'')) ''default'' = Some 20"
  "own_properties (p_nodeTypes (example_props ''n1'')) '''' = None"
  "inherited_properties (p_nodeTypes (example_props ''n1'')) '''' = None"
  "own_properties (p_nodeTypes (example_props ''n1'')) ''toString'' = None"
  "inherited_properties (p_nodeTypes (example_props ''n1'')) ''toString'' = Some 101"
  "p_onError (example_props ''n1'') = Some 31"
  by (simp_all add: example_props_def example_nodeTypes_def Object_prototype_def)

theorem unknown_type_reported_default_used_witness:
  "(\<exists>e. snd (NodeComponentWrapper example_system (example_props ''n1'') example_state) = Some e
      \<and> fst (NodeComponentWrapper example_system (example_props ''n1'') example_state)
          = [Call_onError 31 ''003'' ''Node type custom not found'']
      \<and> sublist ''custom'' ''Node type custom not found''
      \<and> e_component e = Some 20 \<and> e_type e = ''default'')
   \<and> (\<exists>e. snd (NodeComponentWrapper example_system
               ((example_props ''n1'')\<lparr>p_nodeTypes := custom_nodeTypes\<rparr>) example_state) = Some e
      \<and> fst (NodeComponentWrapper example_system
               ((example_props ''n1'')\<lparr>p_nodeTypes := custom_nodeTypes\<rparr>) example_state) = []
      \<and> e_component e = Some 21 \<and> e_type e = ''custom'')"
proof -
  have lookup': "s_nodeLookup example_state
      (p_id ((example_props ''n1'')\<lparr>p_nodeTypes := custom_nodeTypes\<rparr>)) = Some example_node"
    by (simp add: example_state_def example_props_def)
  have helper: "sys_error003 example_system = error003 ''Node type '' '' not found''"
    by (simp add: example_system_def)
  have name: "''custom'' =
      (case n_type example_node of None \<Rightarrow> ''default''
       | Some name \<Rightarrow> if name = [] then ''default'' else name)"
    by (simp add: example_node_def)
  have custom: "own_properties
      (p_nodeTypes ((example_props ''n1'')\<lparr>p_nodeTypes := custom_nodeTypes\<rparr>)) ''custom''
      = Some 21"
    by (simp add: custom_nodeTypes_def)
  have message: "error003 ''Node type '' '' not found'' ''custom'' = ''Node type custom not found''"
    by (simp add: error003_def)
  from unknown_type_reported_default_used [OF example_lookup helper name]
  have first: "\<exists>e. snd (NodeComponentWrapper example_system (example_props ''n1'') example_state) = Some e
      \<and> fst (NodeComponentWrapper example_system (example_props ''n1'') example_state)
          = [Call_onError 31 ''003'' ''Node type custom not found'']
      \<and> e_component e = Some 20 \<and> e_type e = ''default''"
    by (simp add: example_registry message) blast
  from unknown_type_reported_default_used [OF lookup' helper name]
  have second: "\<exists>e. snd (NodeComponentWrapper example_system
               ((example_props ''n1'')\<lparr>p_nodeTypes := custom_nodeTypes\<rparr>) example_state) = Some e
      \<and> fst (NodeComponentWrapper example_system
               ((example_props ''n1'')\<lparr>p_nodeTypes := custom_nodeTypes\<rparr>) example_state) = []
      \<and> e_component e = Some 21 \<and> e_type e = ''custom''"
    unfolding custom by simp
  from first second example_message show ?thesis by simp
qed

text \<open>C3 as stated fails in three ways. A node whose type is present but empty: the
  registry has no entry for the empty name and an error callback is configured, yet the
  render makes no call, because \<open>'' || 'default'\<close> resolves to \<open>default\<close>. A node of the
  unknown type \<open>custom\<close> rendered without an error callback: no call is made, since
  line 160 calls \<open>props.onError?.(...)\<close>. A node of type \<open>toString\<close>: the registry has no
  entry of its own under that name, yet no call is made and what is rendered is the
  inherited member, under the type \<open>toString\<close>.\<close>

theorem empty_type_name_counterexample:
  "s_nodeLookup (state_with empty_type_node) (p_id (example_props ''n1'')) = Some empty_type_node
   \<and> n_type empty_type_node = Some ''''
   \<and> own_properties (p_nodeTypes (example_props ''n1'')) '''' = None
   \<and> p_onError (example_props ''n1'') = Some 31
   \<and> fst (NodeComponentWrapper example_system (example_props ''n1'')
            (state_with empty_type_node)) = []
   \<and> s_nodeLookup example_state (p_id silent_props) = Some example_node
   \<and> n_type example_node = Some ''custom''
   \<and> own_properties (p_nodeTypes silent_props) ''custom'' = None
   \<and> p_onError silent_props = None
   \<and> fst (NodeComponentWrapper example_system silent_props example_state) = []
   \<and> s_nodeLookup (state_with inherited_name_node) (p_id (example_props ''n1''))
        = Some inherited_name_node
   \<and> n_type inherited_name_node = Some ''toString''
   \<and> own_properties (p_nodeTypes (example_props ''n1'')) ''toString'' = None
   \<and> fst (NodeComponentWrapper example_system (example_props ''n1'')
            (state_with inherited_name_node)) = []
   \<and> map_option e_component (snd (NodeComponentWrapper example_system (example_props ''n1'')
            (state_with inherited_name_node))) = Some (Some 101)
   \<and> map_option e_type (snd (NodeComponentWrapper example_system (example_props ''n1'')
            (state_with inherited_name_node))) = Some ''toString''"
proof -
  have empty_name:
    "js_or_default truthy_string (n_type empty_type_node) ''default'' = ''default''"
    "n_type empty_type_node = Some ''''"
    by (simp_all add: empty_type_node_def type_resolution)
  have default_read: "get_property (p_nodeTypes (example_props ''n1'')) ''default'' = Some 20"
    by (simp add: read_own example_registry)
  have empty: "fst (NodeComponentWrapper example_system (example_props ''n1'')
            (state_with empty_type_node)) = []"
    using presenter_effects [OF state_with_lookup empty_name(1), of example_system]
    by (simp add: default_read)
  have silent_lookup: "s_nodeLookup example_state (p_id silent_props) = Some example_node"
    by (simp add: silent_props_def example_state_def example_props_def)
  have custom_name:
    "js_or_default truthy_string (n_type example_node) ''default'' = ''custom''"
    "n_type example_node = Some ''custom''"
    by (simp_all add: example_node_def type_resolution)
  have silent_facts: "own_properties (p_nodeTypes silent_props) ''custom'' = None"
    "p_onError silent_props = None"
    by (simp_all add: silent_props_def example_registry)
  have silent: "fst (NodeComponentWrapper example_system silent_props example_state) = []"
    using presenter_effects [OF silent_lookup custom_name(1), of example_system]
    by (simp add: silent_facts split: if_splits)
  have inherited_name:
    "js_or_default truthy_string (n_type inherited_name_node) ''default'' = ''toString''"
    "n_type inherited_name_node = Some ''toString''"
    by (simp_all add: inherited_name_node_def type_resolution)
  have inherited_read:
    "get_property (p_nodeTypes (example_props ''n1'')) ''toString'' = Some 101"
    by (simp add: get_property_def example_registry)
  have inherited:
    "fst (NodeComponentWrapper example_system (example_props ''n1'')
            (state_with inherited_name_node)) = []"
    "map_option e_component (snd (NodeComponentWrapper example_system (example_props ''n1'')
            (state_with inherited_name_node))) = Some (Some 101)"
    "map_option e_type (snd (NodeComponentWrapper example_system (example_props ''n1'')
            (state_with inherited_name_node))) = Some ''toString''"
    using presenter_effects [OF state_with_lookup inherited_name(1), of example_system]
      presenter_component [OF state_with_lookup inherited_name(1), of example_system]
      presenter_type [OF state_with_lookup inherited_name(1), of example_system]
    by (simp_all add: inherited_read)
  show ?thesis
    using state_with_lookup [of empty_type_node] state_with_lookup [of inherited_name_node]
      empty_name(2) custom_name(2) inherited_name(2) example_registry silent_facts
      silent_lookup empty silent inherited
    by simp
qed

section \<open>The presenter: the clamped position\<close>

lemma clamp_inside: "in_range v bounds \<Longrightarrow> clamp v bounds = v"
  by (auto simp: in_range_def clamp_def split: number.splits prod.splits)

lemma clampPosition_inside:
  "inside_extent p extent \<Longrightarrow> clampPosition (Some p) extent = p"
  by (simp add: clampPosition_def inside_extent_def clamp_inside nullish_or_def)

lemma position_default:
  "js_or_default truthy_object p d = (case p of None \<Rightarrow> d | Some q \<Rightarrow> q)"
  by (cases p) (simp_all add: js_or_default_def truthy_object_def)

lemma presenter_position:
  assumes "s_nodeLookup s (p_id props) = Some node"
    and "chain (n_computed node) c_positionAbsolute = absolute"
    and "(case p_nodeExtent props of
            Some extent \<Rightarrow> sys_clampPosition sys absolute extent
          | None \<Rightarrow> (case absolute of None \<Rightarrow> \<lparr>xy_x = Num 0, xy_y = Num 0\<rparr> | Some p \<Rightarrow> p)) = q"
  shows "map_option (\<lambda>e. (e_xPos e, e_yPos e, e_positionAbsolute e))
           (snd (NodeComponentWrapper sys props s)) = Some (xy_x q, xy_y q, q)"
  using assms
  by (auto simp add: NodeComponentWrapper_def Let_def position_default chain_field_def
      nullish_or_def split: option.splits)

lemma absolute_position:
  "chain (n_computed node) c_positionAbsolute
    = (case n_computed node of None \<Rightarrow> None | Some c \<Rightarrow> c_positionAbsolute c)"
  by (simp add: chain_def)

text \<open>C6, as amended. With \<open>clampPosition\<close> as the specification describes it, the position
  given to the visual component (\<open>positionAbsolute\<close>, whose coordinates are \<open>xPos\<close> and
  \<open>yPos\<close>) is: with an extent, the node's absolute position clamped into the extent, a
  missing position being taken as (0, 0) and clamped as well; without an extent, the
  absolute position unchanged, and (0, 0) when it is missing. A position inside the
  extent is returned unchanged.\<close>

theorem clamped_position_passed:
  assumes "s_nodeLookup s (p_id props) = Some node"
    and "sys_clampPosition sys = clampPosition"
    and "absolute = (case n_computed node of None \<Rightarrow> None | Some c \<Rightarrow> c_positionAbsolute c)"
  shows "\<exists>e. snd (NodeComponentWrapper sys props s) = Some e
    \<and> e_xPos e = xy_x (e_positionAbsolute e) \<and> e_yPos e = xy_y (e_positionAbsolute e)
    \<and> (\<forall>extent p. p_nodeExtent props = Some extent \<and> absolute = Some p \<longrightarrow>
          e_positionAbsolute e
            = \<lparr>xy_x = clamp (xy_x p) (ext_x extent), xy_y = clamp (xy_y p) (ext_y extent)\<rparr>
          \<and> (inside_extent p extent \<longrightarrow> e_positionAbsolute e = p))
    \<and> (\<forall>extent. p_nodeExtent props = Some extent \<and> absolute = None \<longrightarrow>
          e_positionAbsolute e
            = \<lparr>xy_x = clamp (Num 0) (ext_x extent), xy_y = clamp (Num 0) (ext_y extent)\<rparr>)
    \<and> (\<forall>p. p_nodeExtent props = None \<and> absolute = Some p \<longrightarrow> e_positionAbsolute e = p)
    \<and> (p_nodeExtent props = None \<and> absolute = None \<longrightarrow>
          e_positionAbsolute e = \<lparr>xy_x = Num 0, xy_y = Num 0\<rparr>)"
proof -
  define q where "q =
    (case p_nodeExtent props of
       Some extent \<Rightarrow> clampPosition absolute extent
     | None \<Rightarrow> (case absolute of None \<Rightarrow> \<lparr>xy_x = Num 0, xy_y = Num 0\<rparr> | Some p \<Rightarrow> p))"
  have absolute: "chain (n_computed node) c_positionAbsolute = absolute"
    by (simp add: absolute_position assms(3))
  have "map_option (\<lambda>e. (e_xPos e, e_yPos e, e_positionAbsolute e))
           (snd (NodeComponentWrapper sys props s)) = Some (xy_x q, xy_y q, q)"
    by (rule presenter_position [OF assms(1) absolute])
      (simp add: q_def assms(2) split: option.splits)
  then obtain e where e: "snd (NodeComponentWrapper sys props s) = Some e"
    and fields: "e_xPos e = xy_x q" "e_yPos e = xy_y q" "e_positionAbsolute e = q"
    by auto
  have clamped: "\<And>extent p. p_nodeExtent props = Some extent \<Longrightarrow> absolute = Some p \<Longrightarrow>
      q = \<lparr>xy_x = clamp (xy_x p) (ext_x extent), xy_y = clamp (xy_y p) (ext_y extent)\<rparr>"
    by (simp add: q_def clampPosition_def nullish_or_def)
  have inside: "\<And>extent p. p_nodeExtent props = Some extent \<Longrightarrow> absolute = Some p \<Longrightarrow>
      inside_extent p extent \<Longrightarrow> q = p"
    by (simp add: q_def clampPosition_inside)
  have missing: "\<And>extent. p_nodeExtent props = Some extent \<Longrightarrow> absolute = None \<Longrightarrow>
      q = \<lparr>xy_x = clamp (Num 0) (ext_x extent), xy_y = clamp (Num 0) (ext_y extent)\<rparr>"
    by (simp add: q_def clampPosition_def nullish_or_def)
  have unclamped: "\<And>p. p_nodeExtent props = None \<Longrightarrow> absolute = Some p \<Longrightarrow> q = p"
    by (simp add: q_def)
  have zero: "p_nodeExtent props = None \<Longrightarrow> absolute = None \<Longrightarrow>
      q = \<lparr>xy_x = Num 0, xy_y = Num 0\<rparr>"
    by (simp add: q_def)
  show ?thesis
    using e fields clamped inside missing unclamped zero by auto
qed


text \<open>The scenario of the specification: extent 0 to 100 on both axes, absolute position
  (150, 50), clamped to (100, 50).\<close>

theorem clamped_position_passed_witness:
  "\<exists>e. snd (NodeComponentWrapper example_system
             ((example_props ''n1'')\<lparr>p_nodeExtent := Some example_extent\<rparr>)
             (state_with measured_node)) = Some e
     \<and> e_xPos e = Num 100 \<and> e_yPos e = Num 50
     \<and> e_positionAbsolute e = \<lparr>xy_x = Num 100, xy_y = Num 50\<rparr>"
proof -
  have lookup: "s_nodeLookup (state_with measured_node)
      (p_id ((example_props ''n1'')\<lparr>p_nodeExtent := Some example_extent\<rparr>)) = Some measured_node"
    by (simp add: state_with_def example_props_def)
  have helper: "sys_clampPosition example_system = clampPosition"
    by (simp add: example_system_def)
  have absolute: "Some \<lparr>xy_x = Num 150, xy_y = Num 50\<rparr> =
      (case n_computed measured_node of None \<Rightarrow> None | Some c \<Rightarrow> c_positionAbsolute c)"
    by (simp add: measured_node_def)
  have extent: "p_nodeExtent ((example_props ''n1'')\<lparr>p_nodeExtent := Some example_extent\<rparr>)
      = Some example_extent"
    by simp
  have clamped: "clamp (Num 150) (ext_x example_extent) = Num 100"
    "clamp (Num 50) (ext_y example_extent) = Num 50"
    by (simp_all add: example_extent_def clamp_def)
  from clamped_position_passed [OF lookup helper absolute]
  show ?thesis unfolding extent by (auto simp add: clamped)
qed

text \<open>C6 as stated fails for a node without absolute position under an extent that does not
  contain (0, 0): with the extent 10 to 100 on both axes the coordinates are (10, 10),
  not (0, 0).\<close>

theorem missing_position_clamped_counterexample:
  "s_nodeLookup (state_with unplaced_node)
      (p_id ((example_props ''n1'')\<lparr>p_nodeExtent := Some offset_extent\<rparr>)) = Some unplaced_node
   \<and> n_computed unplaced_node = None
   \<and> map_option (\<lambda>e. (e_xPos e, e_yPos e, e_positionAbsolute e))
        (snd (NodeComponentWrapper example_system
          ((example_props ''n1'')\<lparr>p_nodeExtent := Some offset_extent\<rparr>)
          (state_with unplaced_node)))
      = Some (Num 10, Num 10, \<lparr>xy_x = Num 10, xy_y = Num 10\<rparr>)"
proof -
  have lookup: "s_nodeLookup (state_with unplaced_node)
      (p_id ((example_props ''n1'')\<lparr>p_nodeExtent := Some offset_extent\<rparr>)) = Some unplaced_node"
    by (simp add: state_with_def example_props_def)
  have unplaced: "n_computed unplaced_node = None"
    by (simp add: unplaced_node_def)
  have absolute: "chain (n_computed unplaced_node) c_positionAbsolute = None"
    by (simp add: unplaced chain_def)
  have clamped: "(case p_nodeExtent ((example_props ''n1'')\<lparr>p_nodeExtent := Some offset_extent\<rparr>) of
            Some extent \<Rightarrow> sys_clampPosition example_system None extent
          | None \<Rightarrow> (case None of None \<Rightarrow> \<lparr>xy_x = Num 0, xy_y = Num 0\<rparr> | Some p \<Rightarrow> p))
        = \<lparr>xy_x = Num 10, xy_y = Num 10\<rparr>"
    by (simp add: example_system_def clampPosition_def nullish_or_def clamp_def offset_extent_def)
  from presenter_position [OF lookup absolute clamped] lookup unplaced
  show ?thesis by simp
qed

section \<open>The presenter: origin and size\<close>



lemma size_resolution:
  "nullish_or (nullish (chain c f) a) (Num 0)
    = (case (case c of None \<Rightarrow> None | Some r \<Rightarrow> f r) of
         Some w \<Rightarrow> w
       | None \<Rightarrow> (case a of Some w \<Rightarrow> w | None \<Rightarrow> Num 0))"
  by (simp add: nullish_or_def nullish_def chain_def split: option.splits)

lemma origin_resolution:
  "js_or (truthy_opt truthy_object) a b = (case a of Some origin \<Rightarrow> Some origin | None \<Rightarrow> b)"
  by (cases a) (simp_all add: js_or_def truthy_opt_def truthy_object_def)

text \<open>C7. The origin-adjusted position given to the visual component is what
  \<open>getPositionWithOrigin\<close> returns for the clamped position \<open>(xPos, yPos)\<close>, the width and
  the height each taken from the computed size when that is there, else from the authored
  size, else zero, and the node's own origin when it has one, else the collection-wide
  origin. This holds for any \<open>getPositionWithOrigin\<close> and any \<open>clampPosition\<close>.\<close>

theorem origin_adjusted_position:
  assumes "s_nodeLookup s (p_id props) = Some node"
    and "computed_width = (case n_computed node of None \<Rightarrow> None | Some c \<Rightarrow> c_width c)"
    and "computed_height = (case n_computed node of None \<Rightarrow> None | Some c \<Rightarrow> c_height c)"
    and "adjusted = (\<lambda>e. sys_getPositionWithOrigin sys
          \<lparr>a_x = e_xPos e, a_y = e_yPos e,
           a_width = (case computed_width of Some w \<Rightarrow> w
                      | None \<Rightarrow> (case n_width node of Some w \<Rightarrow> w | None \<Rightarrow> Num 0)),
           a_height = (case computed_height of Some h \<Rightarrow> h
                      | None \<Rightarrow> (case n_height node of Some h \<Rightarrow> h | None \<Rightarrow> Num 0)),
           a_origin = (case n_origin node of Some origin \<Rightarrow> Some origin
                      | None \<Rightarrow> p_nodeOrigin props)\<rparr>)"
  shows "\<exists>e. snd (NodeComponentWrapper sys props s) = Some e
    \<and> e_xPosOrigin e = xy_x (adjusted e) \<and> e_yPosOrigin e = xy_y (adjusted e)"
  unfolding assms(2,3,4) using assms(1)
  by (simp add: NodeComponentWrapper_def Let_def size_resolution origin_resolution)

theorem origin_adjusted_position_witness:
  "\<exists>e. snd (NodeComponentWrapper example_system (example_props ''n1'')
             (state_with measured_node)) = Some e
     \<and> e_xPos e = Num 150 \<and> e_yPos e = Num 50
     \<and> e_xPosOrigin e = Num 110 \<and> e_yPosOrigin e = Num 25"
proof -
  have absolute: "chain (n_computed measured_node) c_positionAbsolute
      = Some \<lparr>xy_x = Num 150, xy_y = Num 50\<rparr>"
    by (simp add: measured_node_def chain_def)
  have unclamped: "(case p_nodeExtent (example_props ''n1'') of
            Some extent \<Rightarrow> sys_clampPosition example_system
              (Some \<lparr>xy_x = Num 150, xy_y = Num 50\<rparr>) extent
          | None \<Rightarrow> (case Some \<lparr>xy_x = Num 150, xy_y = Num 50\<rparr> of
              None \<Rightarrow> \<lparr>xy_x = Num 0, xy_y = Num 0\<rparr> | Some p \<Rightarrow> p))
        = \<lparr>xy_x = Num 150, xy_y = Num 50\<rparr>"
    by (simp add: example_props_def)
  from origin_adjusted_position [OF state_with_lookup refl refl refl, of example_system]
  obtain e where e: "snd (NodeComponentWrapper example_system (example_props ''n1'')
        (state_with measured_node)) = Some e"
    and adjusted:
      "e_xPosOrigin e = xy_x (sys_getPositionWithOrigin example_system
          \<lparr>a_x = e_xPos e, a_y = e_yPos e,
           a_width = (case (case n_computed measured_node of None \<Rightarrow> None | Some c \<Rightarrow> c_width c) of
                        Some w \<Rightarrow> w
                      | None \<Rightarrow> (case n_width measured_node of Some w \<Rightarrow> w | None \<Rightarrow> Num 0)),
           a_height = (case (case n_computed measured_node of None \<Rightarrow> None | Some c \<Rightarrow> c_height c) of
                        Some h \<Rightarrow> h
                      | None \<Rightarrow> (case n_height measured_node of Some h \<Rightarrow> h | None \<Rightarrow> Num 0)),
           a_origin = (case n_origin measured_node of Some origin \<Rightarrow> Some origin
                      | None \<Rightarrow> p_nodeOrigin (example_props ''n1''))\<rparr>)"
      "e_yPosOrigin e = xy_y (sys_getPositionWithOrigin example_system
          \<lparr>a_x = e_xPos e, a_y = e_yPos e,
           a_width = (case (case n_computed measured_node of None \<Rightarrow> None | Some c \<Rightarrow> c_width c) of
                        Some w \<Rightarrow> w
                      | None \<Rightarrow> (case n_width measured_node of Some w \<Rightarrow> w | None \<Rightarrow> Num 0)),
           a_height = (case (case n_computed measured_node of None \<Rightarrow> None | Some c \<Rightarrow> c_height c) of
                        Some h \<Rightarrow> h
                      | None \<Rightarrow> (case n_height measured_node of Some h \<Rightarrow> h | None \<Rightarrow> Num 0)),
           a_origin = (case n_origin measured_node of Some origin \<Rightarrow> Some origin
                      | None \<Rightarrow> p_nodeOrigin (example_props ''n1''))\<rparr>)"
    by blast
  have position: "e_xPos e = Num 150" "e_yPos e = Num 50"
    using presenter_position [OF state_with_lookup absolute unclamped] by (simp_all add: e)
  have sizes:
    "(case n_computed measured_node of None \<Rightarrow> None | Some c \<Rightarrow> c_width c) = Some (Num 80)"
    "(case n_computed measured_node of None \<Rightarrow> None | Some c \<Rightarrow> c_height c) = None"
    "n_height measured_node = Some (Num 50)"
    "n_origin measured_node = Some (Num (1/2), Num (1/2))"
    by (simp_all add: measured_node_def example_node_def)
  have "e_xPosOrigin e = Num 110" "e_yPosOrigin e = Num 25"
    unfolding adjusted position sizes
    by (simp_all add: example_system_def example_getPositionWithOrigin_def nullish_or_def)
  with e position show ?thesis by simp
qed

section \<open>The presenter: the initialized flag\<close>



lemma truthy_number_opt:
  "truthy_opt truthy_number v = (\<exists>r. v = Some (Num r) \<and> r \<noteq> 0)"
  by (cases v) (auto simp: truthy_opt_def truthy_number_def split: number.splits)

text \<open>C8. \<open>initialized\<close> is true exactly when the computed width and height are both truthy
  (present, not \<open>NaN\<close>, not zero) or the authored width and height both are. A node for
  which neither pair is complete is not initialized.\<close>

theorem initialized_iff_a_pair_is_set:
  assumes "s_nodeLookup s (p_id props) = Some node"
    and "computed_width = (case n_computed node of None \<Rightarrow> None | Some c \<Rightarrow> c_width c)"
    and "computed_height = (case n_computed node of None \<Rightarrow> None | Some c \<Rightarrow> c_height c)"
    and "is_set = (\<lambda>v. \<exists>r. v = Some (Num r) \<and> r \<noteq> 0)"
  shows "\<exists>e. snd (NodeComponentWrapper sys props s) = Some e
    \<and> (e_initialized e \<longleftrightarrow>
          (is_set computed_width \<and> is_set computed_height)
          \<or> (is_set (n_width node) \<and> is_set (n_height node)))"
  unfolding assms(2,3,4) using assms(1)
  by (simp add: NodeComponentWrapper_def Let_def truthy_number_opt chain_def)


theorem initialized_iff_a_pair_is_set_witness:
  "(\<exists>e. snd (NodeComponentWrapper example_system (example_props ''n1'') example_state) = Some e
      \<and> e_initialized e)
   \<and> (\<exists>e. snd (NodeComponentWrapper example_system (example_props ''n1'')
               (state_with half_sized_node)) = Some e
      \<and> \<not> e_initialized e)"
proof -
  from initialized_iff_a_pair_is_set [OF example_lookup refl refl refl, of example_system]
  have first: "\<exists>e. snd (NodeComponentWrapper example_system (example_props ''n1'')
      example_state) = Some e \<and> e_initialized e"
    by (simp add: example_node_def)
  from initialized_iff_a_pair_is_set [OF state_with_lookup refl refl refl, of example_system half_sized_node]
  have second: "\<exists>e. snd (NodeComponentWrapper example_system (example_props ''n1'')
      (state_with half_sized_node)) = Some e \<and> \<not> e_initialized e"
    by (simp add: half_sized_node_def example_node_def)
  from first second show ?thesis by simp
qed

section \<open>The coordinator: the observer's callback\<close>

lemma map_of_Map_set: "map_of (Map_set k v m) = (map_of m)(k \<mapsto> v)"
  by (induction m) auto

lemma keys_Map_set: "fst ` set (Map_set k v m) = insert k (fst ` set m)"
proof (induction m)
  case Nil
  show ?case by simp
next
  case (Cons p m)
  obtain k' v' where p: "p = (k', v')" by (cases p)
  show ?case
  proof (cases "k' = k")
    case True
    then show ?thesis by (simp add: p)
  next
    case False
    then show ?thesis by (simp add: p Cons insert_commute)
  qed
qed

lemma distinct_Map_set: "distinct (map fst m) \<Longrightarrow> distinct (map fst (Map_set k v m))"
  by (induction m) (auto simp: keys_Map_set)

lemma stage_eq: "stage updates entry = Map_set (entry_id entry) (staged entry) updates"
  by (simp add: stage_def staged_def entry_id_def Let_def)

lemma stage_last:
  "foldl stage m (entries @ [entry])
    = Map_set (entry_id entry) (staged entry) (foldl stage m entries)"
  unfolding foldl_append foldl.simps by (rule stage_eq)

lemma staged_distinct:
  "distinct (map fst m) \<Longrightarrow> distinct (map fst (foldl stage m entries))"
proof (induction entries rule: rev_induct)
  case Nil
  then show ?case by simp
next
  case (snoc entry entries)
  then show ?case unfolding stage_last by (simp add: distinct_Map_set)
qed

lemma staged_keys:
  "fst ` set (foldl stage m entries) = fst ` set m \<union> entry_id ` set entries"
proof (induction entries rule: rev_induct)
  case Nil
  show ?case by simp
next
  case (snoc entry entries)
  show ?case unfolding stage_last keys_Map_set snoc by auto
qed

lemma staged_lookup:
  "map_of (foldl stage m entries) k =
    (case find (\<lambda>entry. entry_id entry = k) (rev entries) of
       Some entry \<Rightarrow> Some (staged entry)
     | None \<Rightarrow> map_of m k)"
proof (induction entries rule: rev_induct)
  case Nil
  show ?case by simp
next
  case (snoc entry entries)
  show ?case unfolding stage_last map_of_Map_set by (simp add: snoc)
qed

text \<open>C5. For every batch of entries the observer's callback makes exactly one call, of
  \<open>updateNodeDimensions\<close>, with one mapping. The keys of the mapping are distinct and are
  the node ids read from the \<open>data-id\<close> attribute of the entries' elements; under each key
  stands \<open>{id, nodeElement, forceUpdate: true}\<close> of the last entry of the batch with that
  id.\<close>

theorem observer_callback_batches:
  "\<exists>updates.
     resizeObserver_callback updateNodeDimensions entries
       = [Call_updateNodeDimensions updateNodeDimensions updates]
     \<and> distinct (map fst updates)
     \<and> fst ` set updates = entry_id ` set entries
     \<and> (\<forall>k. Map_get updates k
          = map_option
              (\<lambda>entry. \<lparr>u_id = k, u_nodeElement = entry_target entry, u_forceUpdate = True\<rparr>)
              (find (\<lambda>entry. getAttribute (entry_target entry) ''data-id'' = k) (rev entries)))"
proof -
  let ?updates = "foldl stage [] entries"
  have call: "resizeObserver_callback updateNodeDimensions entries
      = [Call_updateNodeDimensions updateNodeDimensions ?updates]"
    by (simp add: resizeObserver_callback_def)
  have keys: "distinct (map fst ?updates)" "fst ` set ?updates = entry_id ` set entries"
    using staged_distinct [of "[]" entries] staged_keys [of "[]" entries] by simp_all
  have lookup: "Map_get ?updates k
        = map_option
            (\<lambda>entry. \<lparr>u_id = k, u_nodeElement = entry_target entry, u_forceUpdate = True\<rparr>)
            (find (\<lambda>entry. getAttribute (entry_target entry) ''data-id'' = k) (rev entries))" for k
  proof (cases "find (\<lambda>entry. entry_id entry = k) (rev entries)")
    case None
    then show ?thesis
      by (simp add: Map_get_def staged_lookup entry_id_def [abs_def])
  next
    case (Some entry)
    then have "entry_id entry = k"
      by (auto simp add: find_Some_iff)
    with Some show ?thesis
      by (simp add: Map_get_def staged_lookup staged_def entry_id_def [abs_def])
  qed
  from call keys lookup show ?thesis by blast
qed


theorem observer_callback_batches_witness:
  "resizeObserver_callback 30
     [entry_of (node_element 1 ''n1''), entry_of (node_element 2 ''n2''),
      entry_of (node_element 4 ''n1'')]
   = [Call_updateNodeDimensions 30
       [(Some ''n1'', \<lparr>u_id = Some ''n1'', u_nodeElement = node_element 4 ''n1'',
                       u_forceUpdate = True\<rparr>),
        (Some ''n2'', \<lparr>u_id = Some ''n2'', u_nodeElement = node_element 2 ''n2'',
                       u_forceUpdate = True\<rparr>)]]"
  using observer_callback_batches
    [of 30 "[entry_of (node_element 1 ''n1''), entry_of (node_element 2 ''n2''),
             entry_of (node_element 4 ''n1'')]"]
  by (simp add: resizeObserver_callback_def stage_def getAttribute_def entry_of_def
      node_element_def Let_def)

lemma one_entry_per_key:
  "distinct (map fst m) \<Longrightarrow> k \<in> fst ` set m \<Longrightarrow> length (filter (\<lambda>p. fst p = k) m) = 1"
proof (induction m)
  case Nil
  then show ?case by simp
next
  case (Cons p m)
  show ?case
  proof (cases "fst p = k")
    case True
    from Cons.prems(1) have "fst p \<notin> fst ` set m"
      by simp
    then have "\<forall>q \<in> set m. fst q \<noteq> fst p"
      by (metis imageI)
    with True have "filter (\<lambda>p. fst p = k) m = []"
      by (simp add: filter_empty_conv)
    with True show ?thesis by simp
  next
    case False
    with Cons show ?thesis by auto
  qed
qed

text \<open>C10. When an entry of the batch has an element without the attribute \<open>data-id\<close>, the
  single call still goes out, and its mapping holds exactly one entry under the key
  \<open>null\<close>: the update \<open>{id: null, nodeElement, forceUpdate: true}\<close> of the last such entry
  of the batch. No entry is skipped and no error callback is called.\<close>

theorem missing_data_id_staged_under_null:
  assumes "entry \<in> set entries"
    and "getAttribute (entry_target entry) ''data-id'' = None"
  shows "\<exists>updates last_entry.
     resizeObserver_callback updateNodeDimensions entries
       = [Call_updateNodeDimensions updateNodeDimensions updates]
     \<and> find (\<lambda>entry. getAttribute (entry_target entry) ''data-id'' = None) (rev entries)
         = Some last_entry
     \<and> Map_get updates None
         = Some \<lparr>u_id = None, u_nodeElement = entry_target last_entry, u_forceUpdate = True\<rparr>
     \<and> length (filter (\<lambda>p. fst p = None) updates) = 1"
proof -
  let ?updates = "foldl stage [] entries"
  have call: "resizeObserver_callback updateNodeDimensions entries
      = [Call_updateNodeDimensions updateNodeDimensions ?updates]"
    by (simp add: resizeObserver_callback_def)
  have "entry_id entry = None"
    using assms(2) by (simp add: entry_id_def)
  with assms(1) have present: "None \<in> entry_id ` set entries"
    by (metis imageI)
  have "\<exists>e. find (\<lambda>entry. entry_id entry = None) (rev entries) = Some e"
    using assms(1) \<open>entry_id entry = None\<close>
    by (cases "find (\<lambda>entry. entry_id entry = None) (rev entries)")
      (auto simp add: find_None_iff)
  then obtain last_entry
    where last_entry: "find (\<lambda>entry. entry_id entry = None) (rev entries) = Some last_entry"
    by blast
  then have null: "entry_id last_entry = None"
    by (auto simp add: find_Some_iff)
  have lookup: "Map_get ?updates None
      = Some \<lparr>u_id = None, u_nodeElement = entry_target last_entry, u_forceUpdate = True\<rparr>"
    using last_entry null by (simp add: Map_get_def staged_lookup staged_def)
  have once: "length (filter (\<lambda>p. fst p = None) ?updates) = 1"
    using staged_distinct [of "[]" entries] staged_keys [of "[]" entries] present
    by (intro one_entry_per_key) simp_all
  from call last_entry lookup once show ?thesis
    unfolding entry_id_def [abs_def] by blast
qed

theorem missing_data_id_staged_under_null_witness:
  "resizeObserver_callback 30
     [entry_of (bare_element 3), entry_of (node_element 1 ''n1''), entry_of (bare_element 5)]
   = [Call_updateNodeDimensions 30
       [(None, \<lparr>u_id = None, u_nodeElement = bare_element 5, u_forceUpdate = True\<rparr>),
        (Some ''n1'', \<lparr>u_id = Some ''n1'', u_nodeElement = node_element 1 ''n1'',
                       u_forceUpdate = True\<rparr>)]]"
proof -
  have member: "entry_of (bare_element 3)
      \<in> set [entry_of (bare_element 3), entry_of (node_element 1 ''n1''), entry_of (bare_element 5)]"
    by simp
  have bare: "getAttribute (entry_target (entry_of (bare_element 3))) ''data-id'' = None"
    by (simp add: getAttribute_def entry_of_def bare_element_def)
  from missing_data_id_staged_under_null [OF member bare, of 30]
  show ?thesis
    by (simp add: resizeObserver_callback_def stage_def getAttribute_def entry_of_def
      node_element_def bare_element_def Let_def)
qed

section \<open>The coordinator: the lifetime of the observer\<close>

lemma constructions_append:
  "constructions (a @ b) = constructions a @ constructions b"
  by (induction a rule: constructions.induct) simp_all

lemma disconnections_append:
  "disconnections (a @ b) = disconnections a @ disconnections b"
  by (induction a rule: disconnections.induct) simp_all

lemma callback_calls:
  "constructions (resizeObserver_callback f entries) = []"
  "disconnections (resizeObserver_callback f entries) = []"
  by (simp_all add: resizeObserver_callback_def)

lemma handed_all:
  assumes "map handed children = map (\<lambda>nodeId. (nodeId, stored)) nodeIds"
  shows "\<forall>p \<in> set children. p_resizeObserver p = stored"
proof
  fix p
  assume "p \<in> set children"
  then have "handed p \<in> set (map handed children)"
    by simp
  then have "handed p \<in> set (map (\<lambda>nodeId. (nodeId, stored)) nodeIds)"
    by (simp only: assms)
  then show "p_resizeObserver p = stored"
    by (auto simp add: handed_def)
qed

lemma handed_all_renders:
  assumes "map (map handed) rendered
      = map (\<lambda>i. map (\<lambda>nodeId. (nodeId, stored)) (in_nodeIds i)) inputs"
  shows "\<forall>children \<in> set rendered. \<forall>p \<in> set children. p_resizeObserver p = stored"
proof
  fix children
  assume "children \<in> set rendered"
  then have "map handed children \<in> set (map (map handed) rendered)"
    by simp
  then have "map handed children
      \<in> set (map (\<lambda>i. map (\<lambda>nodeId. (nodeId, stored)) (in_nodeIds i)) inputs)"
    by (simp only: assms)
  then obtain i where "i \<in> set inputs"
    and given: "map handed children = map (\<lambda>nodeId. (nodeId, stored)) (in_nodeIds i)"
    by auto
  from given show "\<forall>p \<in> set children. p_resizeObserver p = stored"
    by (rule handed_all)
qed

lemma render_memoized:
  assumes "h_resizeObserver h = Some stored"
  shows "\<exists>children. render i h = (h, [], children)
    \<and> map handed children = map (\<lambda>nodeId. (nodeId, stored)) (in_nodeIds i)"
  using assms
  by (simp add: render_def NodeRenderer_def useMemo_resizeObserver_def Let_def handed_def
      comp_def)

lemma run_memoized:
  assumes "h_resizeObserver h = Some stored"
  shows "\<exists>effects rendered. run h evs = (h, effects, rendered)
    \<and> constructions effects = [] \<and> disconnections effects = []
    \<and> (h_callback h = None \<longrightarrow> effects = [])
    \<and> map (map handed) rendered
        = map (\<lambda>i. map (\<lambda>nodeId. (nodeId, stored)) (in_nodeIds i)) (render_inputs evs)"
proof (induction evs)
  case Nil
  show ?case by simp
next
  case (Cons ev evs)
  from Cons obtain effects rendered where rest: "run h evs = (h, effects, rendered)"
    and calls: "constructions effects = []" "disconnections effects = []"
      "h_callback h = None \<longrightarrow> effects = []"
    and shared: "map (map handed) rendered
        = map (\<lambda>i. map (\<lambda>nodeId. (nodeId, stored)) (in_nodeIds i)) (render_inputs evs)"
    by auto
  show ?case
  proof (cases ev)
    case (Render i)
    from render_memoized [OF assms, of i] obtain children
      where step: "render i h = (h, [], children)"
        and children: "map handed children = map (\<lambda>nodeId. (nodeId, stored)) (in_nodeIds i)"
      by blast
    show ?thesis
      using calls shared children by (simp add: Render step rest)
  next
    case (Resize entries)
    show ?thesis
      using calls shared
      by (simp add: Resize rest constructions_append disconnections_append callback_calls
          split: option.splits)
  qed
qed

lemma mount_capable:
  assumes "rt_ResizeObserver_defined (in_runtime first)"
  shows "\<exists>h children. render first initial_hooks
      = (h, [New_ResizeObserver (rt_fresh (in_runtime first))], children)
    \<and> h_resizeObserver h = Some (Some (rt_fresh (in_runtime first)))
    \<and> h_resizeObserverRef h = Some (rt_fresh (in_runtime first))
    \<and> map handed children
        = map (\<lambda>nodeId. (nodeId, Some (rt_fresh (in_runtime first)))) (in_nodeIds first)"
  using assms
  by (simp add: render_def NodeRenderer_def useMemo_resizeObserver_def
      resizeObserver_factory_def initial_hooks_def Let_def handed_def comp_def)

lemma mount_incapable:
  assumes "\<not> rt_ResizeObserver_defined (in_runtime first)"
  shows "\<exists>h children. render first initial_hooks = (h, [], children)
    \<and> h_resizeObserver h = Some None \<and> h_resizeObserverRef h = None \<and> h_callback h = None
    \<and> map handed children = map (\<lambda>nodeId. (nodeId, None)) (in_nodeIds first)"
  using assms
  by (simp add: render_def NodeRenderer_def useMemo_resizeObserver_def
      resizeObserver_factory_def initial_hooks_def Let_def handed_def comp_def)

text \<open>C9. Over a whole lifetime of the coordinator (the mounting render, any renders and
  observer callbacks after it, and the unmount), whatever the later renders find in the
  runtime: when \<open>ResizeObserver\<close> is defined at the mounting render, exactly one observer
  is constructed, in that render, and it is disconnected exactly once, by the last call
  of the lifetime, also when no callback ever ran; when \<open>ResizeObserver\<close> is not defined,
  no observer is constructed and no call is made at all, so no error is reported. In
  both cases at most one observer is constructed. Every render, the mounting one and each
  later one, renders one presenter per node id of that render, in order, and hands each
  of them that same observer, or \<open>null\<close> when none was constructed.\<close>

theorem one_observer_per_lifetime:
  assumes "lifetime first evs = (effects, rendered)"
    and "observer = rt_fresh (in_runtime first)"
  shows "(rt_ResizeObserver_defined (in_runtime first) \<longrightarrow>
            constructions effects = [observer] \<and> disconnections effects = [observer]
            \<and> (\<exists>between. effects
                  = New_ResizeObserver observer # between @ [Call_disconnect observer])
            \<and> map (map handed) rendered
                = map (\<lambda>i. map (\<lambda>nodeId. (nodeId, Some observer)) (in_nodeIds i))
                    (first # render_inputs evs)
            \<and> (\<forall>children \<in> set rendered. \<forall>p \<in> set children.
                  p_resizeObserver p = Some observer))
    \<and> (\<not> rt_ResizeObserver_defined (in_runtime first) \<longrightarrow>
            effects = []
            \<and> map (map handed) rendered
                = map (\<lambda>i. map (\<lambda>nodeId. (nodeId, None)) (in_nodeIds i))
                    (first # render_inputs evs)
            \<and> (\<forall>children \<in> set rendered. \<forall>p \<in> set children. p_resizeObserver p = None))
    \<and> length (constructions effects) \<le> 1
    \<and> rendered \<noteq> []"
proof (cases "rt_ResizeObserver_defined (in_runtime first)")
  case True
  from mount_capable [OF True] obtain h children
    where mount: "render first initial_hooks = (h, [New_ResizeObserver observer], children)"
      and h: "h_resizeObserver h = Some (Some observer)" "h_resizeObserverRef h = Some observer"
      and children: "map handed children
          = map (\<lambda>nodeId. (nodeId, Some observer)) (in_nodeIds first)"
    unfolding assms(2) by blast
  from run_memoized [OF h(1), of evs] obtain between later
    where rest: "run h evs = (h, between, later)"
      and calls: "constructions between = []" "disconnections between = []"
      and shared: "map (map handed) later
          = map (\<lambda>i. map (\<lambda>nodeId. (nodeId, Some observer)) (in_nodeIds i)) (render_inputs evs)"
    by blast
  have "lifetime first evs
      = (New_ResizeObserver observer # between @ [Call_disconnect observer], children # later)"
    by (simp add: lifetime_def mount rest cleanup_def h)
  with assms(1) have effects: "effects = New_ResizeObserver observer # between @ [Call_disconnect observer]"
    and rendered: "rendered = children # later"
    by simp_all
  have handed: "map (map handed) rendered
      = map (\<lambda>i. map (\<lambda>nodeId. (nodeId, Some observer)) (in_nodeIds i))
          (first # render_inputs evs)"
    by (simp add: rendered children shared)
  show ?thesis
    using True handed handed_all_renders [OF handed] calls
    by (simp add: effects constructions_append disconnections_append rendered)
next
  case False
  from mount_incapable [OF False] obtain h children
    where mount: "render first initial_hooks = (h, [], children)"
      and h: "h_resizeObserver h = Some None" "h_resizeObserverRef h = None" "h_callback h = None"
      and children: "map handed children = map (\<lambda>nodeId. (nodeId, None)) (in_nodeIds first)"
    by blast
  from run_memoized [OF h(1), of evs] h(3) obtain later
    where rest: "run h evs = (h, [], later)"
      and shared: "map (map handed) later
          = map (\<lambda>i. map (\<lambda>nodeId. (nodeId, None)) (in_nodeIds i)) (render_inputs evs)"
    by auto
  have "lifetime first evs = ([], children # later)"
    by (simp add: lifetime_def mount rest cleanup_def h)
  with assms(1) have effects: "effects = []" and rendered: "rendered = children # later"
    by simp_all
  have handed: "map (map handed) rendered
      = map (\<lambda>i. map (\<lambda>nodeId. (nodeId, None)) (in_nodeIds i)) (first # render_inputs evs)"
    by (simp add: rendered children shared)
  show ?thesis
    using False handed handed_all_renders [OF handed]
    by (simp add: effects rendered)
qed

theorem one_observer_per_lifetime_witness:
  "constructions (fst (lifetime (example_input True 50) [])) = [50]
   \<and> disconnections (fst (lifetime (example_input True 50) [])) = [50]
   \<and> map (map handed) (snd (lifetime (example_input True 50) []))
       = [[(''n1'', Some 50), (''n2'', Some 50)]]
   \<and> constructions (fst (lifetime (example_input True 50)
        [Render (example_input True 51), Resize [entry_of (node_element 1 ''n1'')],
         Render (example_input False 52)])) = [50]
   \<and> disconnections (fst (lifetime (example_input True 50)
        [Render (example_input True 51), Resize [entry_of (node_element 1 ''n1'')],
         Render (example_input False 52)])) = [50]
   \<and> map (map handed) (snd (lifetime (example_input True 50)
        [Render (example_input True 51), Resize [entry_of (node_element 1 ''n1'')],
         Render (example_input False 52)]))
       = [[(''n1'', Some 50), (''n2'', Some 50)], [(''n1'', Some 50), (''n2'', Some 50)],
          [(''n1'', Some 50), (''n2'', Some 50)]]
   \<and> fst (lifetime (example_input False 50)
        [Render (example_input True 51), Resize [entry_of (node_element 1 ''n1'')]]) = []
   \<and> map (map handed) (snd (lifetime (example_input False 50)
        [Render (example_input True 51), Resize [entry_of (node_element 1 ''n1'')]]))
       = [[(''n1'', None), (''n2'', None)], [(''n1'', None), (''n2'', None)]]"
proof -
  have runtime:
    "rt_ResizeObserver_defined (in_runtime (example_input True 50))"
    "\<not> rt_ResizeObserver_defined (in_runtime (example_input False 50))"
    "rt_fresh (in_runtime (example_input True 50)) = 50"
    "in_nodeIds (example_input capable fresh) = [''n1'', ''n2'']" for capable fresh
    by (simp_all add: example_input_def)
  have pair: "lifetime first evs = (fst (lifetime first evs), snd (lifetime first evs))"
    for first evs
    by simp
  from one_observer_per_lifetime [OF pair refl, of "example_input True 50" "[]"]
  have quiet: "constructions (fst (lifetime (example_input True 50) [])) = [50]"
    "disconnections (fst (lifetime (example_input True 50) [])) = [50]"
    "map (map handed) (snd (lifetime (example_input True 50) []))
       = [[(''n1'', Some 50), (''n2'', Some 50)]]"
    by (simp_all add: runtime)
  from one_observer_per_lifetime [OF pair refl, of "example_input True 50"
      "[Render (example_input True 51), Resize [entry_of (node_element 1 ''n1'')],
        Render (example_input False 52)]"]
  have busy: "constructions (fst (lifetime (example_input True 50)
        [Render (example_input True 51), Resize [entry_of (node_element 1 ''n1'')],
         Render (example_input False 52)])) = [50]"
    "disconnections (fst (lifetime (example_input True 50)
        [Render (example_input True 51), Resize [entry_of (node_element 1 ''n1'')],
         Render (example_input False 52)])) = [50]"
    "map (map handed) (snd (lifetime (example_input True 50)
        [Render (example_input True 51), Resize [entry_of (node_element 1 ''n1'')],
         Render (example_input False 52)]))
       = [[(''n1'', Some 50), (''n2'', Some 50)], [(''n1'', Some 50), (''n2'', Some 50)],
          [(''n1'', Some 50), (''n2'', Some 50)]]"
    by (simp_all add: runtime)
  from one_observer_per_lifetime [OF pair refl, of "example_input False 50"
      "[Render (example_input True 51), Resize [entry_of (node_element 1 ''n1'')]]"]
  have incapable: "fst (lifetime (example_input False 50)
        [Render (example_input True 51), Resize [entry_of (node_element 1 ''n1'')]]) = []"
    "map (map handed) (snd (lifetime (example_input False 50)
        [Render (example_input True 51), Resize [entry_of (node_element 1 ''n1'')]]))
       = [[(''n1'', None), (''n2'', None)], [(''n1'', None), (''n2'', None)]]"
    by (simp_all add: runtime)
  from quiet busy incapable show ?thesis by simp
qed

end
